theory Spec2Isabelle
  imports Main "HOL-Library.Sublist"
begin

section \<open>Data model of \<open>src/app.ts\<close>\<close>

text \<open>
  \<^verbatim>\<open>enum ProjectStatus { Active = 'active', Finished = 'finished' }\<close>
\<close>

datatype ProjectStatus = Active | Finished

text \<open>
  \<^verbatim>\<open>class Project\<close>: four constructor parameters that become public fields, and a
  \<open>status\<close> field the constructor sets to \<open>ProjectStatus.Active\<close>. The field \<open>id\<close> is
  written \<open>id'\<close>, since \<open>id\<close> is the identity function of HOL. The field \<open>people\<close> is a
  JavaScript \<open>number\<close>; the integer values are modelled, as \<open>int\<close>.
\<close>

record Project =
  id' :: string
  title :: string
  description :: string
  people :: int
  status :: ProjectStatus

definition Project_new :: "string \<Rightarrow> string \<Rightarrow> string \<Rightarrow> int \<Rightarrow> Project" where
  "Project_new i t d n =
     \<lparr>id' = i, title = t, description = d, people = n, status = Active\<rparr>"

text \<open>
  What a call evaluates to. Neither \<open>addProject\<close> nor \<open>moveProject\<close> nor a handler has a
  \<open>return\<close> statement with a value, so a call that completes evaluates to \<open>undefined\<close>.
  The only exception the modelled code can raise is the \<open>TypeError\<close> of an assignment
  to a property of \<open>undefined\<close>.
\<close>

datatype jsval = Undefined | JSString string

datatype error = TypeError

subsection \<open>The state and its listeners\<close>

text \<open>
  \<^verbatim>\<open>type Listener<T> = (projects: T[]) => void\<close>. A listener is a closure; what it
  does to the objects it captured is a function on the state \<open>'w\<close> of those objects.
  A listener of this type does not throw and does not call back into the state.
\<close>

type_synonym 'w Listener = "Project list \<Rightarrow> 'w \<Rightarrow> 'w"

text \<open>
  \<^verbatim>\<open>class ProjectState extends State<Project>\<close>: the inherited \<open>listeners\<close> array and
  the private \<open>projects\<close> array, both empty at construction.
\<close>

record 'w ProjectState =
  listeners :: "'w Listener list"
  projects :: "Project list"

definition ProjectState_new :: "'w ProjectState" where
  "ProjectState_new = \<lparr>listeners = [], projects = []\<rparr>"

text \<open>
  \<^verbatim>\<open>static getInstance()\<close>: the static field \<open>instance\<close> is an option; the first
  access creates the state, later ones return the one stored.
\<close>

definition getInstance :: "'w ProjectState option \<Rightarrow> 'w ProjectState \<times> 'w ProjectState option" where
  "getInstance inst =
     (case inst of
        None \<Rightarrow> (ProjectState_new, Some ProjectState_new)
      | Some s \<Rightarrow> (s, Some s))"

text \<open>\<^verbatim>\<open>addListener(fn) { this.listeners.push(fn) }\<close>\<close>

definition addListener :: "'w Listener \<Rightarrow> 'w ProjectState \<Rightarrow> 'w ProjectState" where
  "addListener fn s = s\<lparr>listeners := listeners s @ [fn]\<rparr>"

text \<open>
  The running program: the global \<open>projectState\<close>, the objects the listeners captured
  (\<open>world\<close>), and a record of the listener invocations made so far (\<open>calls\<close>: the
  position of the listener in \<open>listeners\<close> and the array it was given). The record of
  calls is not a variable of the program; it is kept to state which listener ran when.
\<close>

record 'w Runtime =
  projectState :: "'w ProjectState"
  world :: 'w
  calls :: "(nat \<times> Project list) list"

text \<open>
  One invocation \<^verbatim>\<open>fn([...this.projects])\<close>: the spread copies the array as it is at
  this invocation.
\<close>

definition invoke :: "nat \<Rightarrow> 'w Listener \<Rightarrow> 'w Runtime \<Rightarrow> 'w Runtime" where
  "invoke i fn rt =
     (let snapshot = projects (projectState rt)
      in rt\<lparr>world := fn snapshot (world rt), calls := calls rt @ [(i, snapshot)]\<rparr>)"

text \<open>
  \<^verbatim>\<open>Array.prototype.forEach\<close>: the callback is applied to the elements from index 0
  upwards, with the index of each.
\<close>

fun forEach :: "(nat \<Rightarrow> 'a \<Rightarrow> 's \<Rightarrow> 's) \<Rightarrow> nat \<Rightarrow> 'a list \<Rightarrow> 's \<Rightarrow> 's" where
  "forEach f i [] s = s"
| "forEach f i (x # xs) s = forEach f (Suc i) xs (f i x s)"

text \<open>\<^verbatim>\<open>updateListeners() { this.listeners.forEach((fn) => fn([...this.projects])) }\<close>\<close>

definition updateListeners :: "'w Runtime \<Rightarrow> 'w Runtime" where
  "updateListeners rt = forEach invoke 0 (listeners (projectState rt)) rt"

text \<open>
  \<^verbatim>\<open>addProject(title, description, people)\<close>. The first argument of the model,
  \<open>rnd\<close>, is the string \<^verbatim>\<open>Math.random().toString()\<close> evaluates to at this call:
  \<open>Math.random\<close> is the platform's, and the program puts no condition on what it draws.
\<close>

definition addProject ::
  "string \<Rightarrow> string \<Rightarrow> string \<Rightarrow> int \<Rightarrow> 'w Runtime \<Rightarrow> (error + jsval) \<times> 'w Runtime" where
  "addProject rnd ttl descr ppl rt =
     (let project = Project_new rnd ttl descr ppl;
          st = projectState rt;
          rt1 = rt\<lparr>projectState := st\<lparr>projects := projects st @ [project]\<rparr>\<rparr>
      in (Inr Undefined, updateListeners rt1))"

text \<open>
  \<^verbatim>\<open>this.projects.find(prj => prj.id === projectId)\<close> returns a reference to the first
  object of the array that satisfies the predicate, or \<open>undefined\<close>. The objects of
  \<open>projects\<close> are pairwise different objects (each was made by a \<open>new Project\<close> of its
  own), so the reference is the position in the array.
\<close>

fun find_ref :: "('a \<Rightarrow> bool) \<Rightarrow> 'a list \<Rightarrow> nat option" where
  "find_ref P [] = None"
| "find_ref P (x # xs) = (if P x then Some 0 else map_option Suc (find_ref P xs))"

text \<open>
  \<^verbatim>\<open>moveProject(projectId, newStatus)\<close>. The non-null assertion \<open>!\<close> is erased by the
  compiler; when nothing is found, \<^verbatim>\<open>found.status = newStatus\<close> assigns to a
  property of \<open>undefined\<close> and throws, before \<open>updateListeners\<close> is reached.
\<close>

definition moveProject ::
  "string \<Rightarrow> ProjectStatus \<Rightarrow> 'w Runtime \<Rightarrow> (error + jsval) \<times> 'w Runtime" where
  "moveProject projectId newStatus rt =
     (let st = projectState rt
      in case find_ref (\<lambda>prj. id' prj = projectId) (projects st) of
           None \<Rightarrow> (Inl TypeError, rt)
         | Some found \<Rightarrow>
             (let ps = (projects st)[found := (projects st ! found)\<lparr>status := newStatus\<rparr>];
                  rt1 = rt\<lparr>projectState := st\<lparr>projects := ps\<rparr>\<rparr>
              in (Inr Undefined, updateListeners rt1)))"

text \<open>A sequence of \<open>addProject\<close> calls, each with its draw and its three arguments.\<close>

fun addProjects :: "(string \<times> string \<times> string \<times> int) list \<Rightarrow> 'w Runtime \<Rightarrow> 'w Runtime" where
  "addProjects [] rt = rt"
| "addProjects ((rnd, ttl, descr, ppl) # cs) rt =
     addProjects cs (snd (addProject rnd ttl descr ppl rt))"

subsection \<open>Project items\<close>

text \<open>
  A template literal \<^verbatim>\<open>${n}\<close> of a number is the \<open>toString\<close> of the number
  (ECMAScript, \<open>Number::toString\<close>, radix 10). The numbers modelled are the integers;
  an \<open>int\<close> that no number holds exactly stands for the number nearest to it, as
  a numeric literal does.

  The decimal numeral of a natural number:
\<close>

definition digit_char :: "nat \<Rightarrow> char" where
  "digit_char d = ''0123456789'' ! d"

function nat_toString :: "nat \<Rightarrow> string" where
  "nat_toString n =
     (if n < 10 then [digit_char n] else nat_toString (n div 10) @ [digit_char (n mod 10)])"
  by pat_completeness auto
termination
  by (relation "measure (\<lambda>n. n)") auto

text \<open>
  \<^verbatim>\<open>Number.MAX_SAFE_INTEGER\<close> is \<open>2^53 - 1\<close>: up to \<open>2^53\<close> every integer is a
  number.
\<close>

definition MAX_SAFE_INTEGER :: int where
  "MAX_SAFE_INTEGER = 2 ^ 53 - 1"

text \<open>The number of binary digits of a natural number.\<close>

function bit_length :: "nat \<Rightarrow> nat" where
  "bit_length n = (if n = 0 then 0 else Suc (bit_length (n div 2)))"
  by pat_completeness auto
termination
  by (relation "measure (\<lambda>n. n)") auto

text \<open>
  The number nearest to a natural number: a number has 53 significant bits, what
  lies below them is rounded to nearest, a tie to the even significand. A result of
  \<open>2^1024\<close> or more is \<open>Infinity\<close>.
\<close>

definition to_number :: "nat \<Rightarrow> nat" where
  "to_number v =
     (if v < 2 ^ 53 then v
      else
        (let e = bit_length v - 53;
             q = v div 2 ^ e;
             r = v mod 2 ^ e;
             h = 2 ^ (e - 1)
         in (if r > h \<or> (r = h \<and> odd q) then q + 1 else q) * 2 ^ e))"

text \<open>
  \<open>Number::toString\<close> prints the decimal with the fewest significant digits among
  those the number is nearest to. With \<open>k\<close> significant digits and \<open>e\<close> zeros behind
  them, the two decimals around \<open>x\<close> are \<open>lo * 10^e\<close> and \<open>(lo + 1) * 10^e\<close>; of
  those that round to \<open>x\<close> the one closer to \<open>x\<close> is taken, and of two equally close
  ones the one with the even digits.
\<close>

definition pick :: "nat \<Rightarrow> nat \<Rightarrow> nat option" where
  "pick x e =
     (let lo = x div 10 ^ e;
          a = lo * 10 ^ e;
          b = (lo + 1) * 10 ^ e;
          okA = (to_number a = x);
          okB = (to_number b = x)
      in if okA \<and> okB then
           (if x - a < b - x then Some a
            else if b - x < x - a then Some b
            else if even lo then Some a else Some b)
         else if okA then Some a
         else if okB then Some b
         else None)"

text \<open>
  The number of digits of the decimal numeral.
\<close>

function digit_count :: "nat \<Rightarrow> nat" where
  "digit_count n = (if n < 10 then 1 else digit_count (n div 10) + 1)"
  by pat_completeness auto
termination
  by (relation "measure (\<lambda>n. n)") auto

text \<open>
  Seventeen significant digits always suffice; the fewest are found by trying
  \<open>k = 1, 2, \<dots>, 17\<close> significant digits in turn, that is, one zero less behind
  them at each step.
\<close>

function shortest_from :: "nat \<Rightarrow> nat \<Rightarrow> nat \<Rightarrow> nat" where
  "shortest_from x e tries =
     (if tries = 0 then x
      else case pick x e of
             Some v \<Rightarrow> v
           | None \<Rightarrow> shortest_from x (e - 1) (tries - 1))"
  by pat_completeness auto
termination
  by (relation "measure (\<lambda>(x, e, tries). tries)") auto

definition shortest :: "nat \<Rightarrow> nat" where
  "shortest x = shortest_from x (digit_count x - 1) 17"

text \<open>
  The decimal \<open>v\<close> found is printed in full when it has at most 21 digits, and
  otherwise as its significant digits, with a point behind the first when there
  are several, and the exponent.
\<close>

definition strip_zeros :: "string \<Rightarrow> string" where
  "strip_zeros ds = rev (dropWhile (\<lambda>c. c = CHR ''0'') (rev ds))"

definition exponential :: "nat \<Rightarrow> string" where
  "exponential v =
     (case strip_zeros (nat_toString v) of
        [] \<Rightarrow> []
      | [d] \<Rightarrow> [d]
      | d # rest \<Rightarrow> d # CHR ''.'' # rest) @ ''e+'' @ nat_toString (digit_count v - 1)"

text \<open>
  Below \<open>2^53\<close> every integer is a number, so the shortest decimal that rounds to
  an integer is the integer itself: what is printed is its decimal numeral.
\<close>

definition positive_toString :: "nat \<Rightarrow> string" where
  "positive_toString v =
     (if v < 2 ^ 53 then nat_toString v
      else
        (let x = to_number v
         in if 2 ^ 1024 \<le> x then ''Infinity''
            else
              (let d = shortest x
               in if digit_count d \<le> 21 then nat_toString d else exponential d)))"

definition number_toString :: "int \<Rightarrow> string" where
  "number_toString n =
     (if n < 0 then CHR ''-'' # positive_toString (nat (- n)) else positive_toString (nat n))"

text \<open>
  \<^verbatim>\<open>class ProjectItem\<close>: the host element's id and the project it shows.
\<close>

record ProjectItem =
  hostId :: string
  project :: Project

text \<open>\<^verbatim>\<open>get persons()\<close>\<close>

definition persons :: "ProjectItem \<Rightarrow> string" where
  "persons this =
     (let n = people (project this)
      in if n > 1 then number_toString n @ '' persons'' else ''1 person'')"

text \<open>
  What a project item leaves in the document: the constructor of \<open>Component\<close> gives
  the cloned \<open>li\<close> element the id of the project, and \<^verbatim>\<open>render()\<close> writes three
  texts into it: the \<open>h2\<close>, the \<open>h3\<close> and the \<open>p\<close> element.
\<close>

record Row =
  element_id :: string
  h2_text :: string
  h3_text :: string
  p_text :: string

definition ProjectItem_render :: "ProjectItem \<Rightarrow> Row" where
  "ProjectItem_render this =
     \<lparr>element_id = id' (project this),
      h2_text = title (project this),
      h3_text = persons this @ '' assigned'',
      p_text = description (project this)\<rparr>"

subsection \<open>Project lists\<close>

text \<open>
  \<^verbatim>\<open>class ProjectList\<close>: the status it was constructed with (\<open>type\<close>), the
  \<open>assignedProjects\<close> array, and of the document the two things the class writes:
  the rows of its \<open>ul\<close> element and whether that element carries the class
  \<open>droppable\<close>. The elements the class looks up with \<open>querySelector\<close> and
  \<open>getElementById\<close> come from the page's templates and are taken to exist.
\<close>

record ProjectList =
  type :: ProjectStatus
  assignedProjects :: "Project list"
  rows :: "Row list"
  droppable :: bool

text \<open>
  The project lists are objects the listeners and the handlers share by reference:
  \<open>this\<close> is a handle into a store of project lists.
\<close>

type_synonym Lists = "nat \<Rightarrow> ProjectList"

text \<open>
  The string value of a status, as the enum declares it; \<open>render\<close> of a project list
  gives its \<open>ul\<close> element the id \<^verbatim>\<open>`${this.type}-projects-list`\<close>.
\<close>

fun status_value :: "ProjectStatus \<Rightarrow> string" where
  "status_value Active = ''active''"
| "status_value Finished = ''finished''"

text \<open>
  \<^verbatim>\<open>renderProjects()\<close> empties the \<open>ul\<close> element and makes a new \<open>ProjectItem\<close> for
  each assigned project, hosted by the \<open>ul\<close> element, which renders itself into it.
\<close>

definition renderProjects :: "ProjectList \<Rightarrow> ProjectList" where
  "renderProjects l =
     l\<lparr>rows := map (\<lambda>prj. ProjectItem_render
                          \<lparr>hostId = status_value (type l) @ ''-projects-list'', project = prj\<rparr>)
                  (assignedProjects l)\<rparr>"

text \<open>
  The closure \<open>configure\<close> registers:
  \<^verbatim>\<open>(projects) => { const filtered = projects.filter(prj => prj.status === this.type);
     this.assignedProjects = filtered; this.renderProjects() }\<close>
\<close>

definition listener :: "nat \<Rightarrow> Lists Listener" where
  "listener this prjs w =
     (let filtered = filter (\<lambda>prj. status prj = type (w this)) prjs
      in w(this := renderProjects ((w this)\<lparr>assignedProjects := filtered\<rparr>)))"

definition configure :: "nat \<Rightarrow> Lists Runtime \<Rightarrow> Lists Runtime" where
  "configure this rt = rt\<lparr>projectState := addListener (listener this) (projectState rt)\<rparr>"

text \<open>
  \<^verbatim>\<open>new ProjectList(type)\<close>, the new object stored under the handle \<open>this\<close>: the
  constructor sets \<open>assignedProjects\<close> to the empty array and calls \<open>configure\<close>.
\<close>

definition ProjectList_new :: "nat \<Rightarrow> ProjectStatus \<Rightarrow> Lists Runtime \<Rightarrow> Lists Runtime" where
  "ProjectList_new this t rt =
     configure this
       (rt\<lparr>world := (world rt)
              (this := \<lparr>type = t, assignedProjects = [], rows = [], droppable = False\<rparr>)\<rparr>)"

subsection \<open>Drag events\<close>

text \<open>
  Of a \<open>DragEvent\<close> the handlers read \<open>dataTransfer\<close>, which may be \<open>null\<close>. A
  \<open>DataTransfer\<close> holds the dragged data as pairs of a format and a string;
  \<open>types\<close> lists the formats, and \<open>getData(format)\<close> is the string stored for the
  format, or the empty string when there is none.
\<close>

record DataTransfer =
  items :: "(string \<times> string) list"

record DragEvent =
  dataTransfer :: "DataTransfer option"

definition types :: "DataTransfer \<Rightarrow> string list" where
  "types dt = map fst (items dt)"

definition getData :: "DataTransfer \<Rightarrow> string \<Rightarrow> string" where
  "getData dt format = (case map_of (items dt) format of None \<Rightarrow> [] | Some d \<Rightarrow> d)"

text \<open>
  \<^verbatim>\<open>dragStartHandler\<close> of a project item:
  \<^verbatim>\<open>event.dataTransfer!.setData('text/plain', this.project.id)\<close>. \<open>setData\<close> replaces
  what is stored for the format; on a \<open>null\<close> \<open>dataTransfer\<close> the call throws.
  The assignment to \<open>effectAllowed\<close> is read by the platform only and is left out.
\<close>

definition setData :: "string \<Rightarrow> string \<Rightarrow> DataTransfer \<Rightarrow> DataTransfer" where
  "setData format d dt =
     dt\<lparr>items := filter (\<lambda>(f, _). f \<noteq> format) (items dt) @ [(format, d)]\<rparr>"

definition dragStartHandler :: "ProjectItem \<Rightarrow> DragEvent \<Rightarrow> error + DragEvent" where
  "dragStartHandler this event =
     (case dataTransfer event of
        None \<Rightarrow> Inl TypeError
      | Some dt \<Rightarrow>
          Inr (event\<lparr>dataTransfer := Some (setData ''text/plain'' (id' (project this)) dt)\<rparr>))"

text \<open>
  \<^verbatim>\<open>dropHandler(event)\<close> of a project list. A string is truthy when it is not empty.
  An exception of \<open>moveProject\<close> leaves the handler at once.
\<close>

definition dropHandler ::
  "nat \<Rightarrow> DragEvent \<Rightarrow> Lists Runtime \<Rightarrow> (error + jsval) \<times> Lists Runtime" where
  "dropHandler this event rt =
     (case dataTransfer event of
        None \<Rightarrow> (Inr Undefined, rt)
      | Some dt \<Rightarrow>
          if getData dt ''text/plain'' \<noteq> [] then
            (let ident = getData dt ''text/plain'';
                 target = (if type (world rt this) = Active then Active else Finished)
             in case moveProject ident target rt of
                  (Inl e, rt1) \<Rightarrow> (Inl e, rt1)
                | (Inr _, rt1) \<Rightarrow>
                    (Inr Undefined,
                     rt1\<lparr>world := (world rt1)(this := (world rt1 this)\<lparr>droppable := False\<rparr>)\<rparr>))
          else (Inr Undefined, rt))"

text \<open>
  \<^verbatim>\<open>dragOverHandler(event)\<close>: \<open>types[0]\<close> of an empty list is \<open>undefined\<close>. The result
  says whether \<open>preventDefault\<close> was called.
\<close>

definition dragOverHandler :: "nat \<Rightarrow> DragEvent \<Rightarrow> Lists \<Rightarrow> bool \<times> Lists" where
  "dragOverHandler this event w =
     (case dataTransfer event of
        None \<Rightarrow> (False, w)
      | Some dt \<Rightarrow>
          (case types dt of
             t # _ \<Rightarrow>
               if t = ''text/plain'' then (True, w(this := (w this)\<lparr>droppable := True\<rparr>))
               else (False, w)
           | [] \<Rightarrow> (False, w)))"

text \<open>\<^verbatim>\<open>dragLeaveHandler(_event)\<close>\<close>

definition dragLeaveHandler :: "nat \<Rightarrow> Lists \<Rightarrow> Lists" where
  "dragLeaveHandler this w = w(this := (w this)\<lparr>droppable := False\<rparr>)"

subsection \<open>The program at start\<close>

text \<open>
  The last lines of the file: the state is made before any list, then
  \<^verbatim>\<open>new ProjectList(ProjectStatus.Active)\<close> and
  \<^verbatim>\<open>new ProjectList(ProjectStatus.Finished)\<close>, stored here under the handles 0 and 1.
\<close>

definition blank :: Lists where
  "blank = (\<lambda>_. \<lparr>type = Active, assignedProjects = [], rows = [], droppable = False\<rparr>)"

definition start :: "Lists Runtime" where
  "start =
     ProjectList_new 1 Finished
       (ProjectList_new 0 Active
          \<lparr>projectState = ProjectState_new, world = blank, calls = []\<rparr>)"

section \<open>Properties\<close>

subsection \<open>Notification: what \<open>updateListeners\<close> leaves behind\<close>

lemma forEach_invoke_state:
  "projectState (forEach invoke i fns rt) = projectState rt"
  by (induction fns arbitrary: i rt) (simp_all add: invoke_def Let_def)

lemma forEach_invoke_calls:
  "calls (forEach invoke i fns rt) =
     calls rt @ map (\<lambda>j. (j, projects (projectState rt))) [i ..< i + length fns]"
proof (induction fns arbitrary: i rt)
  case Nil
  then show ?case by simp
next
  case (Cons fn fns)
  have "calls (forEach invoke i (fn # fns) rt) =
        calls (forEach invoke (Suc i) fns (invoke i fn rt))"
    by simp
  also have "\<dots> = calls (invoke i fn rt) @
        map (\<lambda>j. (j, projects (projectState (invoke i fn rt)))) [Suc i ..< Suc i + length fns]"
    by (rule Cons.IH)
  also have "\<dots> = calls rt @
        map (\<lambda>j. (j, projects (projectState rt))) (i # [Suc i ..< Suc i + length fns])"
    by (simp add: invoke_def Let_def del: upt_Suc)
  also have "i # [Suc i ..< Suc i + length fns] = [i ..< i + length (fn # fns)]"
    by (simp add: upt_conv_Cons del: upt_Suc)
  finally show ?case .
qed

lemma forEach_invoke_world:
  "world (forEach invoke i fns rt) =
     foldl (\<lambda>w fn. fn (projects (projectState rt)) w) (world rt) fns"
  by (induction fns arbitrary: i rt) (simp_all add: invoke_def Let_def)

lemma updateListeners_state: "projectState (updateListeners rt) = projectState rt"
  by (simp add: updateListeners_def forEach_invoke_state)

lemma updateListeners_calls:
  "calls (updateListeners rt) =
     calls rt @ map (\<lambda>i. (i, projects (projectState rt))) [0 ..< length (listeners (projectState rt))]"
  by (simp add: updateListeners_def forEach_invoke_calls)

lemma updateListeners_world:
  "world (updateListeners rt) =
     foldl (\<lambda>w fn. fn (projects (projectState rt)) w) (world rt) (listeners (projectState rt))"
  by (simp add: updateListeners_def forEach_invoke_world)

subsection \<open>The lookup of \<open>moveProject\<close>\<close>

lemma find_ref_None: "(find_ref P xs = None) = (\<forall>x \<in> set xs. \<not> P x)"
  by (induction xs) auto

lemma find_ref_Some:
  "find_ref P xs = Some k \<Longrightarrow> k < length xs \<and> P (xs ! k) \<and> (\<forall>j < k. \<not> P (xs ! j))"
proof (induction xs arbitrary: k)
  case Nil
  then show ?case by simp
next
  case (Cons x xs)
  show ?case
  proof (cases "P x")
    case True
    with Cons.prems show ?thesis by simp
  next
    case False
    with Cons.prems obtain k' where k': "find_ref P xs = Some k'" "k = Suc k'"
      by auto
    from Cons.IH [OF k'(1)] False k'(2) show ?thesis
      by (auto simp: less_Suc_eq_0_disj)
  qed
qed



lemma find_ref_id_None:
  "(find_ref (\<lambda>prj. id' prj = projectId) ps = None) = (projectId \<notin> set (map id' ps))"
  by (auto simp: find_ref_None)

lemma map_update_same: "(map f ps)[k := f (ps ! k)] = map f ps"
  by (metis list_update_id map_update)

lemma map_field_update:
  "map id' (ps[k := (ps ! k)\<lparr>status := s\<rparr>]) = map id' ps"
  "map title (ps[k := (ps ! k)\<lparr>status := s\<rparr>]) = map title ps"
  "map description (ps[k := (ps ! k)\<lparr>status := s\<rparr>]) = map description ps"
  "map people (ps[k := (ps ! k)\<lparr>status := s\<rparr>]) = map people ps"
  by (simp_all add: map_update map_update_same)


subsection \<open>The two mutators, step by step\<close>

lemma addProject_state:
  "projectState (snd (addProject rnd ttl descr ppl rt)) =
     (projectState rt)\<lparr>projects := projects (projectState rt) @ [Project_new rnd ttl descr ppl]\<rparr>"
  by (simp add: addProject_def Let_def updateListeners_state)

lemma moveProject_None:
  "find_ref (\<lambda>prj. id' prj = projectId) (projects (projectState rt)) = None \<Longrightarrow>
     moveProject projectId newStatus rt = (Inl TypeError, rt)"
  by (simp add: moveProject_def Let_def)

lemma moveProject_Some:
  "find_ref (\<lambda>prj. id' prj = projectId) (projects (projectState rt)) = Some k \<Longrightarrow>
     moveProject projectId newStatus rt =
       (Inr Undefined,
        updateListeners
          (rt\<lparr>projectState := (projectState rt)
                \<lparr>projects := (projects (projectState rt))
                   [k := (projects (projectState rt) ! k)\<lparr>status := newStatus\<rparr>]\<rparr>\<rparr>))"
  by (simp add: moveProject_def Let_def)

lemma start_state:
  "projectState start = \<lparr>listeners = [listener 0, listener 1], projects = []\<rparr>"
  by (simp add: start_def ProjectList_new_def configure_def addListener_def ProjectState_new_def)

lemma start_calls: "calls start = []"
  by (simp add: start_def ProjectList_new_def configure_def)

lemma addProjects_projects:
  "map id' (projects (projectState (addProjects cs rt))) =
     map id' (projects (projectState rt)) @ map fst cs"
proof (induction cs arbitrary: rt)
  case Nil
  then show ?case by simp
next
  case (Cons c cs)
  obtain rnd ttl descr ppl where c: "c = (rnd, ttl, descr, ppl)"
    by (cases c) auto
  show ?case
    by (simp add: c Cons.IH addProject_state Project_new_def)
qed

subsection \<open>Identifiers of added projects\<close>

text \<open>
  C1, as amended. \<open>addProject\<close> takes the id of the new project from \<open>Math.random\<close> and
  compares it with nothing. After any sequence of \<open>addProject\<close> calls the ids in
  \<open>projects\<close> are the ids that were there before, followed by the strings drawn at
  the calls, in order; so the ids are pairwise distinct exactly when the earlier ids
  and the draws are.
\<close>

theorem addProjects_ids:
  "map id' (projects (projectState (addProjects cs rt))) =
     map id' (projects (projectState rt)) @ map fst cs \<and>
   distinct (map id' (projects (projectState (addProjects cs rt)))) =
     distinct (map id' (projects (projectState rt)) @ map fst cs)"
  by (simp only: addProjects_projects)

text \<open>
  C1 as stated fails: when \<open>Math.random\<close> draws the same number at two calls, the
  second project gets the id the first one has.
\<close>

theorem addProject_ids_counterexample:
  "id' (last (projects (projectState
      (addProjects [(''0.5'', ''a'', ''b'', 1), (''0.5'', ''c'', ''d'', 2)] start))))
   \<in> set (map id' (projects (projectState
      (addProjects [(''0.5'', ''a'', ''b'', 1)] start))))"
  by (simp add: addProject_state Project_new_def)

subsection \<open>Notification of the listeners\<close>

text \<open>
  C2. \<open>addListener\<close> puts a listener behind the ones registered before it. A call of
  \<open>addProject\<close>, and a call of \<open>moveProject\<close> with an id that is in \<open>projects\<close>,
  invokes the listeners at positions \<open>0, 1, \<dots>\<close> of \<open>listeners\<close>, each once and in
  this order, and gives each the array \<open>projects\<close> as it is when the call returns,
  that is, after the mutation. The objects the listeners captured end in the state
  these invocations, in this order, leave them in.
\<close>

theorem listeners_notified:
  "listeners (addListener fn (projectState rt)) = listeners (projectState rt) @ [fn] \<and>
   (let rt' = snd (addProject rnd ttl descr ppl rt);
        snapshot = projects (projectState rt')
    in calls rt' =
         calls rt @ map (\<lambda>i. (i, snapshot)) [0 ..< length (listeners (projectState rt))] \<and>
       world rt' = foldl (\<lambda>w fn. fn snapshot w) (world rt) (listeners (projectState rt))) \<and>
   (projectId \<in> set (map id' (projects (projectState rt))) \<longrightarrow>
    (let rt' = snd (moveProject projectId newStatus rt);
         snapshot = projects (projectState rt')
     in calls rt' =
          calls rt @ map (\<lambda>i. (i, snapshot)) [0 ..< length (listeners (projectState rt))] \<and>
        world rt' = foldl (\<lambda>w fn. fn snapshot w) (world rt) (listeners (projectState rt))))"
proof -
  have reg: "listeners (addListener fn (projectState rt)) = listeners (projectState rt) @ [fn]"
    by (simp add: addListener_def)
  have add: "let rt' = snd (addProject rnd ttl descr ppl rt);
         snapshot = projects (projectState rt')
     in calls rt' =
          calls rt @ map (\<lambda>i. (i, snapshot)) [0 ..< length (listeners (projectState rt))] \<and>
        world rt' = foldl (\<lambda>w fn. fn snapshot w) (world rt) (listeners (projectState rt))"
    by (simp add: addProject_def Let_def updateListeners_state updateListeners_calls
        updateListeners_world)
  have move: "let rt' = snd (moveProject projectId newStatus rt);
         snapshot = projects (projectState rt')
     in calls rt' =
          calls rt @ map (\<lambda>i. (i, snapshot)) [0 ..< length (listeners (projectState rt))] \<and>
        world rt' = foldl (\<lambda>w fn. fn snapshot w) (world rt) (listeners (projectState rt))"
    if "projectId \<in> set (map id' (projects (projectState rt)))"
  proof -
    from that obtain k where
      k: "find_ref (\<lambda>prj. id' prj = projectId) (projects (projectState rt)) = Some k"
      using find_ref_id_None [of projectId "projects (projectState rt)"] by auto
    show ?thesis
      by (simp add: moveProject_Some [OF k] Let_def updateListeners_state updateListeners_calls
          updateListeners_world)
  qed
  from reg add move show ?thesis by blast
qed

text \<open>
  The program after one \<open>addProject\<close> and one \<open>moveProject\<close> of the added project: the
  two project lists were called in turn, twice, first with the project active and
  then with it finished.
\<close>

theorem listeners_notified_witness:
  "''0.5'' \<in> set (map id' (projects (projectState
      (snd (addProject ''0.5'' ''Build API'' ''Design the REST API'' 3 start))))) \<and>
   map fst (calls (snd (moveProject ''0.5'' Finished
      (snd (addProject ''0.5'' ''Build API'' ''Design the REST API'' 3 start))))) = [0, 1, 0, 1] \<and>
   map snd (calls (snd (moveProject ''0.5'' Finished
      (snd (addProject ''0.5'' ''Build API'' ''Design the REST API'' 3 start))))) =
     [[Project_new ''0.5'' ''Build API'' ''Design the REST API'' 3],
      [Project_new ''0.5'' ''Build API'' ''Design the REST API'' 3],
      [(Project_new ''0.5'' ''Build API'' ''Design the REST API'' 3)\<lparr>status := Finished\<rparr>],
      [(Project_new ''0.5'' ''Build API'' ''Design the REST API'' 3)\<lparr>status := Finished\<rparr>]]"
proof -
  let ?rt = "snd (addProject ''0.5'' ''Build API'' ''Design the REST API'' 3 start)"
  have mem: "''0.5'' \<in> set (map id' (projects (projectState ?rt)))"
    by (simp add: addProject_state Project_new_def)
  have st: "projects (projectState (snd (moveProject ''0.5'' Finished ?rt))) =
      [(Project_new ''0.5'' ''Build API'' ''Design the REST API'' 3)\<lparr>status := Finished\<rparr>]"
    by (simp add: moveProject_def Let_def addProject_state updateListeners_state Project_new_def
        start_state)
  have c0: "calls ?rt =
      [(0, [Project_new ''0.5'' ''Build API'' ''Design the REST API'' 3]),
       (1, [Project_new ''0.5'' ''Build API'' ''Design the REST API'' 3])]"
    by (simp add: addProject_def Let_def updateListeners_calls start_state start_calls)
  have n: "length (listeners (projectState ?rt)) = 2"
    by (simp add: addProject_state start_state)
  from listeners_notified [of "listener 2" ?rt "''0.9''" "''t''" "''d''" 1 "''0.5''" Finished]
    mem st c0 n
  show ?thesis
    by (simp add: Let_def upt_rec)
qed

subsection \<open>Adding a project\<close>

text \<open>
  C3, as amended. \<open>addProject\<close> makes a project with the given title, description and
  number of people and the status \<open>Active\<close>, and appends it to \<open>projects\<close>; the
  projects that were there stay as they were, in their order, and so do the
  listeners. The call evaluates to \<open>undefined\<close>: the method has no \<open>return\<close>.
\<close>

theorem addProject_appends:
  "fst (addProject rnd ttl descr ppl rt) = Inr Undefined \<and>
   projects (projectState (snd (addProject rnd ttl descr ppl rt))) =
     projects (projectState rt) @
       [\<lparr>id' = rnd, title = ttl, description = descr, people = ppl, status = Active\<rparr>] \<and>
   listeners (projectState (snd (addProject rnd ttl descr ppl rt))) = listeners (projectState rt)"
  by (simp add: addProject_state Project_new_def) (simp add: addProject_def Let_def)

text \<open>
  C3 as stated fails in its last part: the call does not evaluate to the id of the
  project it appended.
\<close>

theorem addProject_returns_counterexample:
  "fst (addProject ''0.5'' ''Build API'' ''Design the REST API'' 3 start) \<noteq>
     Inr (JSString (id' (last (projects (projectState
       (snd (addProject ''0.5'' ''Build API'' ''Design the REST API'' 3 start)))))))"
  by (simp add: addProject_def Let_def)

subsection \<open>Moving a project\<close>

text \<open>
  C4. When no project of \<open>projects\<close> has the id, \<open>moveProject\<close> throws a \<open>TypeError\<close>
  and leaves everything as it was: the projects, the listeners, the objects the
  listeners captured, and the record of listener invocations, to which nothing was
  added.
\<close>

theorem moveProject_unknown:
  "projectId \<notin> set (map id' (projects (projectState rt))) \<Longrightarrow>
     moveProject projectId newStatus rt = (Inl TypeError, rt)"
  using find_ref_id_None [of projectId "projects (projectState rt)"]
  by (simp add: moveProject_None)

theorem moveProject_unknown_witness:
  "''unknown-id'' \<notin> set (map id' (projects (projectState
      (snd (addProject ''0.5'' ''Build API'' ''Design the REST API'' 3 start))))) \<and>
   moveProject ''unknown-id'' Finished
      (snd (addProject ''0.5'' ''Build API'' ''Design the REST API'' 3 start)) =
     (Inl TypeError, snd (addProject ''0.5'' ''Build API'' ''Design the REST API'' 3 start))"
  using moveProject_unknown [of "''unknown-id''"
      "snd (addProject ''0.5'' ''Build API'' ''Design the REST API'' 3 start)" Finished]
  by (simp add: addProject_state Project_new_def start_state)

text \<open>
  C5. When a project of \<open>projects\<close> has the id, \<open>moveProject\<close> leaves the length and
  the order of \<open>projects\<close> as they were, and at every position the id, the title, the
  description and the number of people; a project with another id is left as it
  was in every field.
\<close>

theorem moveProject_frame:
  assumes "projectId \<in> set (map id' (projects (projectState rt)))"
  shows "let ps = projects (projectState rt);
             ps' = projects (projectState (snd (moveProject projectId newStatus rt)))
         in length ps' = length ps \<and>
            map id' ps' = map id' ps \<and>
            map title ps' = map title ps \<and>
            map description ps' = map description ps \<and>
            map people ps' = map people ps \<and>
            (\<forall>i < length ps. id' (ps ! i) \<noteq> projectId \<longrightarrow> ps' ! i = ps ! i)"
proof -
  from assms obtain k where
    k: "find_ref (\<lambda>prj. id' prj = projectId) (projects (projectState rt)) = Some k"
    using find_ref_id_None [of projectId "projects (projectState rt)"] by auto
  from find_ref_Some [OF k] have hit: "id' (projects (projectState rt) ! k) = projectId"
    by simp
  have other: "\<forall>i < length (projects (projectState rt)).
      id' (projects (projectState rt) ! i) \<noteq> projectId \<longrightarrow>
      (projects (projectState rt))[k := (projects (projectState rt) ! k)\<lparr>status := newStatus\<rparr>] ! i =
        projects (projectState rt) ! i"
    using hit by (auto intro!: nth_list_update_neq)
  show ?thesis
    using other
    by (simp add: moveProject_Some [OF k] Let_def updateListeners_state map_field_update)
qed

theorem moveProject_frame_witness:
  "''0.7'' \<in> set (map id' (projects (projectState
      (addProjects [(''0.5'', ''a'', ''b'', 1), (''0.7'', ''c'', ''d'', 2)] start)))) \<and>
   projects (projectState (snd (moveProject ''0.7'' Finished
      (addProjects [(''0.5'', ''a'', ''b'', 1), (''0.7'', ''c'', ''d'', 2)] start)))) ! 0 =
     Project_new ''0.5'' ''a'' ''b'' 1 \<and>
   map id' (projects (projectState (snd (moveProject ''0.7'' Finished
      (addProjects [(''0.5'', ''a'', ''b'', 1), (''0.7'', ''c'', ''d'', 2)] start))))) =
     [''0.5'', ''0.7'']"
proof -
  let ?rt = "addProjects [(''0.5'', ''a'', ''b'', 1), (''0.7'', ''c'', ''d'', 2)] start"
  have ps: "projects (projectState ?rt) =
      [Project_new ''0.5'' ''a'' ''b'' 1, Project_new ''0.7'' ''c'' ''d'' 2]"
    by (simp add: addProject_state start_state)
  have mem: "''0.7'' \<in> set (map id' (projects (projectState ?rt)))"
    unfolding ps by (simp add: Project_new_def)
  from moveProject_frame [OF mem, of Finished] mem show ?thesis
    unfolding ps Let_def by (simp add: Project_new_def)
qed

subsection \<open>The listener of a project list\<close>

text \<open>
  C6. Whatever array the listener of a project list is called with, it leaves in
  \<open>assignedProjects\<close> of its list the projects of that array whose status is the
  \<open>type\<close> of the list, in the order of the array: the filtered array, which is a
  subsequence of the array. The \<open>type\<close> of the list does not change.
\<close>

theorem listener_filters:
  "assignedProjects (listener this snapshot w this) =
     filter (\<lambda>prj. status prj = type (w this)) snapshot \<and>
   subseq (assignedProjects (listener this snapshot w this)) snapshot \<and>
   type (listener this snapshot w this) = type (w this)"
  by (simp add: listener_def Let_def renderProjects_def)

subsection \<open>Dropping on a project list\<close>

text \<open>
  \<open>getData\<close> of a format that is not among the \<open>types\<close> is the empty string.
\<close>

lemma getData_absent: "format \<notin> set (types dt) \<Longrightarrow> getData dt format = []"
  by (simp add: getData_def types_def map_of_eq_None_iff [THEN iffD2])

text \<open>
  C7. When the event of a drop has no \<open>dataTransfer\<close>, or one without the format
  \<open>text/plain\<close> among its \<open>types\<close>, \<open>dropHandler\<close> returns without having called
  \<open>moveProject\<close>: the projects, the listeners, the project lists and the record of
  listener invocations are as they were.
\<close>

theorem dropHandler_rejects:
  assumes "dataTransfer event = None \<or>
           (\<exists>dt. dataTransfer event = Some dt \<and> ''text/plain'' \<notin> set (types dt))"
  shows "dropHandler this event rt = (Inr Undefined, rt)"
  using assms by (auto simp: dropHandler_def getData_absent)

theorem dropHandler_rejects_witness:
  "(dataTransfer \<lparr>dataTransfer = Some \<lparr>items = [(''text/html'', ''0.5'')]\<rparr>\<rparr> = None \<or>
    (\<exists>dt. dataTransfer \<lparr>dataTransfer = Some \<lparr>items = [(''text/html'', ''0.5'')]\<rparr>\<rparr> = Some dt \<and>
          ''text/plain'' \<notin> set (types dt))) \<and>
   dropHandler 1 \<lparr>dataTransfer = Some \<lparr>items = [(''text/html'', ''0.5'')]\<rparr>\<rparr>
      (snd (addProject ''0.5'' ''Build API'' ''Design the REST API'' 3 start)) =
     (Inr Undefined, snd (addProject ''0.5'' ''Build API'' ''Design the REST API'' 3 start))"
  using dropHandler_rejects [of "\<lparr>dataTransfer = Some \<lparr>items = [(''text/html'', ''0.5'')]\<rparr>\<rparr>" 1
      "snd (addProject ''0.5'' ''Build API'' ''Design the REST API'' 3 start)"]
  by (simp add: types_def)

subsection \<open>Moving twice\<close>



subsection \<open>The display of the number of people\<close>

text \<open>
  Up to \<open>Number.MAX_SAFE_INTEGER\<close> a positive number is printed as its decimal
  numeral; above, what is printed is a decimal that rounds to the number.
\<close>

lemma nat_toString_digits:
  "\<exists>ds. nat_toString m = map digit_char ds \<and> ds \<noteq> [] \<and>
        (0 < m \<longrightarrow> hd ds \<noteq> 0) \<and> (\<forall>d \<in> set ds. d < 10) \<and>
        foldl (\<lambda>a d. 10 * a + d) 0 ds = m"
proof (induction m rule: nat_toString.induct)
  case (1 n)
  show ?case
  proof (cases "n < 10")
    case True
    then have "nat_toString n = map digit_char [n]"
      by (subst nat_toString.simps) (simp del: nat_toString.simps)
    with True show ?thesis
      by (intro exI [of _ "[n]"]) (simp del: nat_toString.simps)
  next
    case False
    with "1.IH" obtain ds where ds: "nat_toString (n div 10) = map digit_char ds"
      "ds \<noteq> []" "0 < n div 10 \<longrightarrow> hd ds \<noteq> 0" "\<forall>d \<in> set ds. d < 10"
      "foldl (\<lambda>a d. 10 * a + d) 0 ds = n div 10"
      by (elim meta_impE exE conjE) assumption
    from False have pos: "0 < n div 10"
      by simp
    have str: "nat_toString n = map digit_char (ds @ [n mod 10])"
      using False ds(1)
      by (subst nat_toString.simps) (simp del: nat_toString.simps)
    have val: "foldl (\<lambda>a d. 10 * a + d) 0 (ds @ [n mod 10]) = n"
      using ds(5) by simp
    have hd: "hd (ds @ [n mod 10]) \<noteq> 0"
      using ds(2,3) pos by simp
    have small: "\<forall>d \<in> set (ds @ [n mod 10]). d < 10"
      using ds(4) by simp
    from str val hd small show ?thesis
      by (intro exI [of _ "ds @ [n mod 10]"]) (simp del: nat_toString.simps)
  qed
qed

lemma number_toString_safe:
  assumes "0 < n" and "n \<le> MAX_SAFE_INTEGER"
  shows "number_toString n = nat_toString (nat n)"
proof -
  from assms(2) have "nat n < 2 ^ 53"
    by (simp add: MAX_SAFE_INTEGER_def)
  with assms(1) show ?thesis
    by (simp add: number_toString_def positive_toString_def del: nat_toString.simps)
qed

lemma pick_rounds: "pick x e = Some v \<Longrightarrow> to_number v = x"
  by (simp add: pick_def Let_def split: if_splits)

lemma shortest_from_rounds:
  "to_number x = x \<Longrightarrow> to_number (shortest_from x e tries) = x"
proof (induction x e tries rule: shortest_from.induct)
  case (1 x e tries)
  show ?case
  proof (cases "tries = 0")
    case True
    with "1.prems" show ?thesis
      by (subst shortest_from.simps) (simp del: shortest_from.simps)
  next
    case False
    show ?thesis
    proof (cases "pick x e")
      case None
      with False "1.IH" "1.prems" show ?thesis
        by (subst shortest_from.simps) (simp del: shortest_from.simps)
    next
      case (Some v)
      with False pick_rounds [OF Some] show ?thesis
        by (subst shortest_from.simps) (simp del: shortest_from.simps)
    qed
  qed
qed

lemma shortest_rounds: "to_number x = x \<Longrightarrow> to_number (shortest x) = x"
  by (simp add: shortest_def shortest_from_rounds del: shortest_from.simps)

text \<open>
  Two numbers above \<open>2^53\<close>, step by step: \<open>10^21\<close>, the first number printed with
  an exponent, and \<open>2^69\<close>, whose sixteen printed digits are not those of its
  decimal numeral.
\<close>

lemma rounding_1e21:
  "to_number 1000000000000000000000 = 1000000000000000000000"
  "to_number 2000000000000000000000 = 2000000000000000000000"
  by (simp_all add: to_number_def Let_def)

lemma pick_1e21:
  "pick 1000000000000000000000 21 = Some 1000000000000000000000"
  by (simp_all add: pick_def Let_def rounding_1e21)

lemma digit_count_1e21: "digit_count 1000000000000000000000 = 22"
  by simp

lemma shortest_1e21: "shortest 1000000000000000000000 = 1000000000000000000000"
  by (simp only: shortest_def digit_count_1e21) (simp add: pick_1e21)

lemma number_toString_1e21: "number_toString 1000000000000000000000 = ''1e+21''"
  by (simp add: number_toString_def positive_toString_def rounding_1e21 shortest_1e21
      exponential_def strip_zeros_def digit_char_def)

lemma rounding_2_69:
  "to_number 500000000000000000000 = 500000000000000000000"
  "to_number 600000000000000000000 = 600000000000000000000"
  "to_number 590000000000000000000 = 590000000000000000000"
  "to_number 591000000000000000000 = 591000000000000000000"
  "to_number 590200000000000000000 = 590200000000000000000"
  "to_number 590300000000000000000 = 590300000000000000000"
  "to_number 590290000000000000000 = 590290000000000000000"
  "to_number 590295000000000000000 = 590295000000000032768"
  "to_number 590296000000000000000 = 590296000000000000000"
  "to_number 590295800000000000000 = 590295800000000032768"
  "to_number 590295900000000000000 = 590295900000000016384"
  "to_number 590295810000000000000 = 590295809999999991808"
  "to_number 590295820000000000000 = 590295819999999950848"
  "to_number 590295811000000000000 = 590295811000000053248"
  "to_number 590295810300000000000 = 590295810300000010240"
  "to_number 590295810400000000000 = 590295810400000016384"
  "to_number 590295810350000000000 = 590295810349999980544"
  "to_number 590295810360000000000 = 590295810359999987712"
  "to_number 590295810358000000000 = 590295810358000025600"
  "to_number 590295810359000000000 = 590295810359000039424"
  "to_number 590295810358700000000 = 590295810358700015616"
  "to_number 590295810358800000000 = 590295810358800023552"
  "to_number 590295810358710000000 = 590295810358709977088"
  "to_number 590295810358705000000 = 590295810358704996352"
  "to_number 590295810358706000000 = 590295810358706044928"
  "to_number 590295810358705600000 = 590295810358705586176"
  "to_number 590295810358705700000 = 590295810358705651712"
  by (simp_all add: to_number_def Let_def)

lemma pick_2_69:
  "pick 590295810358705651712 20 = None"
  "pick 590295810358705651712 19 = None"
  "pick 590295810358705651712 18 = None"
  "pick 590295810358705651712 17 = None"
  "pick 590295810358705651712 16 = None"
  "pick 590295810358705651712 15 = None"
  "pick 590295810358705651712 14 = None"
  "pick 590295810358705651712 13 = None"
  "pick 590295810358705651712 12 = None"
  "pick 590295810358705651712 11 = None"
  "pick 590295810358705651712 10 = None"
  "pick 590295810358705651712 9 = None"
  "pick 590295810358705651712 8 = None"
  "pick 590295810358705651712 7 = None"
  "pick 590295810358705651712 6 = None"
  "pick 590295810358705651712 5 = Some 590295810358705700000"
  by (simp_all add: pick_def Let_def rounding_2_69)

lemma digit_count_2_69: "digit_count 590295810358705651712 = 21"
  by simp

lemma shortest_2_69: "shortest 590295810358705651712 = 590295810358705700000"
  by (simp only: shortest_def digit_count_2_69) (simp add: pick_2_69)

lemma rounding_2_69_self: "to_number 590295810358705651712 = 590295810358705651712"
  by (simp add: to_number_def Let_def)

lemma number_toString_2_69:
  "number_toString 590295810358705651712 = ''590295810358705700000''"
  by (simp add: number_toString_def positive_toString_def rounding_2_69_self shortest_2_69
      digit_char_def)

text \<open>
  C9. For a project item whose project has a positive number of people, \<open>persons\<close>
  is \<open>1 person\<close> when the number is 1, and otherwise what the template literal
  prints for the number, followed by \<open>persons\<close>. For a number up to
  \<open>Number.MAX_SAFE_INTEGER\<close> what is printed is the decimal numeral of the number:
  digits between 0 and 9, the first of them not 0, whose value is the number.
\<close>

theorem persons_positive:
  "0 < people (project this) \<Longrightarrow>
     persons this =
       (if people (project this) = 1 then ''1 person''
        else number_toString (people (project this)) @ '' persons'') \<and>
     (people (project this) \<le> MAX_SAFE_INTEGER \<longrightarrow>
      (\<exists>ds. number_toString (people (project this)) = map (\<lambda>d. ''0123456789'' ! d) ds \<and>
            ds \<noteq> [] \<and> hd ds \<noteq> 0 \<and> (\<forall>d \<in> set ds. d < 10) \<and>
            int (foldl (\<lambda>a d. 10 * a + d) 0 ds) = people (project this)))"
proof -
  assume pos: "0 < people (project this)"
  let ?n = "people (project this)"
  have shape: "persons this =
      (if ?n = 1 then ''1 person'' else number_toString ?n @ '' persons'')"
    using pos by (simp add: persons_def Let_def)
  have digits: "\<exists>ds. number_toString ?n = map (\<lambda>d. ''0123456789'' ! d) ds \<and>
            ds \<noteq> [] \<and> hd ds \<noteq> 0 \<and> (\<forall>d \<in> set ds. d < 10) \<and>
            int (foldl (\<lambda>a d. 10 * a + d) 0 ds) = ?n"
    if safe: "?n \<le> MAX_SAFE_INTEGER"
  proof -
    from nat_toString_digits [of "nat ?n"] obtain ds where
      ds: "nat_toString (nat ?n) = map digit_char ds" "ds \<noteq> []"
        "0 < nat ?n \<longrightarrow> hd ds \<noteq> 0" "\<forall>d \<in> set ds. d < 10"
        "foldl (\<lambda>a d. 10 * a + d) 0 ds = nat ?n"
      by (elim exE conjE)
    have chars: "map digit_char ds = map (\<lambda>d. ''0123456789'' ! d) ds"
      by (rule map_cong) (simp_all add: digit_char_def)
    have str: "number_toString ?n = map (\<lambda>d. ''0123456789'' ! d) ds"
      using number_toString_safe [OF pos safe] ds(1) chars by (simp only:)
    have hd: "hd ds \<noteq> 0"
      using ds(3) pos by simp
    have val: "int (foldl (\<lambda>a d. 10 * a + d) 0 ds) = ?n"
      using ds(5) pos by simp
    from str ds(2) hd ds(4) val show ?thesis
      by (intro exI [of _ ds] conjI)
  qed
  from shape digits show ?thesis
    by (intro conjI impI)
qed

theorem persons_positive_witness:
  "0 < people (project \<lparr>hostId = ''active-projects-list'',
                         project = Project_new ''0.5'' ''Build API'' ''Design the REST API'' 120\<rparr>) \<and>
   people (project \<lparr>hostId = ''active-projects-list'',
                     project = Project_new ''0.5'' ''Build API'' ''Design the REST API'' 120\<rparr>)
     \<le> MAX_SAFE_INTEGER \<and>
   persons \<lparr>hostId = ''active-projects-list'',
            project = Project_new ''0.5'' ''Build API'' ''Design the REST API'' 120\<rparr> =
     ''120 persons'' \<and>
   persons \<lparr>hostId = ''active-projects-list'',
            project = Project_new ''0.5'' ''Build API'' ''Design the REST API'' 1\<rparr> =
     ''1 person'' \<and>
   persons \<lparr>hostId = ''active-projects-list'',
            project = Project_new ''0.5'' ''Build API'' ''Design the REST API'' 4\<rparr> =
     ''4 persons'' \<and>
   persons \<lparr>hostId = ''active-projects-list'',
            project = Project_new ''0.5'' ''Build API'' ''Design the REST API''
              9007199254740991\<rparr> =
     ''9007199254740991 persons'' \<and>
   persons \<lparr>hostId = ''active-projects-list'',
            project = Project_new ''0.5'' ''Build API'' ''Design the REST API''
              1000000000000000000000\<rparr> =
     ''1e+21 persons'' \<and>
   persons \<lparr>hostId = ''active-projects-list'',
            project = Project_new ''0.5'' ''Build API'' ''Design the REST API''
              590295810358705651712\<rparr> =
     ''590295810358705700000 persons''"
proof -
  have small: "number_toString 120 = ''120''" "number_toString 4 = ''4''"
    "number_toString 9007199254740991 = ''9007199254740991''"
    by (simp_all add: number_toString_def positive_toString_def digit_char_def)
  from persons_positive [of "\<lparr>hostId = ''active-projects-list'',
            project = Project_new ''0.5'' ''Build API'' ''Design the REST API'' 120\<rparr>"]
    persons_positive [of "\<lparr>hostId = ''active-projects-list'',
            project = Project_new ''0.5'' ''Build API'' ''Design the REST API'' 1\<rparr>"]
    persons_positive [of "\<lparr>hostId = ''active-projects-list'',
            project = Project_new ''0.5'' ''Build API'' ''Design the REST API'' 4\<rparr>"]
    persons_positive [of "\<lparr>hostId = ''active-projects-list'',
            project = Project_new ''0.5'' ''Build API'' ''Design the REST API''
              9007199254740991\<rparr>"]
    persons_positive [of "\<lparr>hostId = ''active-projects-list'',
            project = Project_new ''0.5'' ''Build API'' ''Design the REST API''
              1000000000000000000000\<rparr>"]
    persons_positive [of "\<lparr>hostId = ''active-projects-list'',
            project = Project_new ''0.5'' ''Build API'' ''Design the REST API''
              590295810358705651712\<rparr>"]
  show ?thesis
    by (simp add: Project_new_def MAX_SAFE_INTEGER_def small number_toString_1e21
        number_toString_2_69)
qed

text \<open>
  C10. For a project item whose project has a number of people of at most 1, zero and
  the negative numbers included, \<open>persons\<close> is \<open>1 person\<close>.
\<close>

theorem persons_at_most_one:
  "people (project this) \<le> 1 \<Longrightarrow> persons this = ''1 person''"
  by (simp add: persons_def Let_def)

theorem persons_at_most_one_witness:
  "people (project \<lparr>hostId = ''active-projects-list'',
                     project = Project_new ''0.5'' ''Build API'' ''Design the REST API'' (- 2)\<rparr>) \<le> 1 \<and>
   persons \<lparr>hostId = ''active-projects-list'',
            project = Project_new ''0.5'' ''Build API'' ''Design the REST API'' (- 2)\<rparr> = ''1 person'' \<and>
   persons \<lparr>hostId = ''active-projects-list'',
            project = Project_new ''0.5'' ''Build API'' ''Design the REST API'' 0\<rparr> = ''1 person''"
  using persons_at_most_one [of "\<lparr>hostId = ''active-projects-list'',
            project = Project_new ''0.5'' ''Build API'' ''Design the REST API'' (- 2)\<rparr>"]
    persons_at_most_one [of "\<lparr>hostId = ''active-projects-list'',
            project = Project_new ''0.5'' ''Build API'' ''Design the REST API'' 0\<rparr>"]
  by (simp add: Project_new_def)

subsection \<open>The program run on an example\<close>

text \<open>
  One project is added to the program as it starts, then moved to \<open>Finished\<close>, by
  \<open>moveProject\<close> and by a drop on the second project list: the active list shows the
  project after the addition, the finished list after the move.
\<close>

lemma start_world:
  "world start =
     blank(0 := \<lparr>type = Active, assignedProjects = [], rows = [], droppable = False\<rparr>,
           1 := \<lparr>type = Finished, assignedProjects = [], rows = [], droppable = False\<rparr>)"
  by (simp add: start_def ProjectList_new_def configure_def)

lemma scenario_A:
  "assignedProjects
     (world (snd (addProject ''0.5'' ''Build API'' ''Design the REST API'' 3 start)) 0) =
     [Project_new ''0.5'' ''Build API'' ''Design the REST API'' 3] \<and>
   assignedProjects
     (world (snd (addProject ''0.5'' ''Build API'' ''Design the REST API'' 3 start)) 1) = [] \<and>
   map h3_text (rows
     (world (snd (addProject ''0.5'' ''Build API'' ''Design the REST API'' 3 start)) 0)) =
     [''3 persons assigned'']"
  by (simp add: addProject_def Let_def updateListeners_world start_state start_world
      listener_def renderProjects_def Project_new_def ProjectItem_render_def persons_def
      number_toString_def positive_toString_def digit_char_def)

lemma scenario_B:
  "assignedProjects
     (world (snd (moveProject ''0.5'' Finished
        (snd (addProject ''0.5'' ''Build API'' ''Design the REST API'' 3 start)))) 0) = [] \<and>
   assignedProjects
     (world (snd (moveProject ''0.5'' Finished
        (snd (addProject ''0.5'' ''Build API'' ''Design the REST API'' 3 start)))) 1) =
     [(Project_new ''0.5'' ''Build API'' ''Design the REST API'' 3)\<lparr>status := Finished\<rparr>]"
  by (simp add: moveProject_def addProject_def Let_def updateListeners_world updateListeners_state
      start_state start_world listener_def renderProjects_def Project_new_def)

lemma scenario_drop:
  "map status (projects (projectState (snd (dropHandler 1
      \<lparr>dataTransfer = Some \<lparr>items = [(''text/plain'', ''0.5'')]\<rparr>\<rparr>
      (snd (addProject ''0.5'' ''Build API'' ''Design the REST API'' 3 start)))))) = [Finished]"
  by (simp add: dropHandler_def getData_def moveProject_def addProject_def Let_def
      updateListeners_world updateListeners_state
      start_state start_world listener_def renderProjects_def Project_new_def)

end
